theory Spec2Isabelle
  imports Complex_Main "HOL-Library.Sublist"
begin

section \<open>JavaScript values and strings\<close>

text \<open>
  Strings are character lists. The two string methods the front end relies on are
  \<^verbatim>\<open>toLowerCase\<close> and \<^verbatim>\<open>includes\<close>. \<^verbatim>\<open>toLowerCase\<close> is modelled on the
  ASCII letters, which is where the keywords below live; every other character is left
  as it is.
\<close>

definition upper_letters :: string where
  "upper_letters = ''ABCDEFGHIJKLMNOPQRSTUVWXYZ''"

definition lower_letters :: string where
  "lower_letters = ''abcdefghijklmnopqrstuvwxyz''"

definition toLowerChar :: "char \<Rightarrow> char" where
  "toLowerChar c = (case map_of (zip upper_letters lower_letters) c of Some d \<Rightarrow> d | None \<Rightarrow> c)"

definition toUpperChar :: "char \<Rightarrow> char" where
  "toUpperChar c = (case map_of (zip lower_letters upper_letters) c of Some d \<Rightarrow> d | None \<Rightarrow> c)"

definition toLowerCase :: "string \<Rightarrow> string" where
  "toLowerCase s = map toLowerChar s"

definition toUpperCase :: "string \<Rightarrow> string" where
  "toUpperCase s = map toUpperChar s"

text \<open>\<^verbatim>\<open>s.startsWith(w)\<close> and \<^verbatim>\<open>s.includes(w)\<close>: a scan over the start positions.\<close>

fun startsWith :: "string \<Rightarrow> string \<Rightarrow> bool" where
  "startsWith s [] = True"
| "startsWith [] (w # ws) = False"
| "startsWith (c # cs) (w # ws) = (c = w \<and> startsWith cs ws)"

fun str_includes :: "string \<Rightarrow> string \<Rightarrow> bool" where
  "str_includes [] w = (w = [])"
| "str_includes (c # cs) w = (startsWith (c # cs) w \<or> str_includes cs w)"

text \<open>
  The values a React prop can hold, as far as \<^verbatim>\<open>RiskMeter\<close> tells them apart:
  \<^verbatim>\<open>typeof v === 'number'\<close> holds of every \<open>JNumber\<close>, also of \<^verbatim>\<open>NaN\<close> and the
  infinities.
\<close>

datatype js_number = Finite real | NaN | PosInfinity | NegInfinity

datatype js_value = JUndefined | JNull | JNumber js_number | JString string | JOther

datatype js_error = TypeError

text \<open>A default parameter \<^verbatim>\<open>{ p = d }\<close> takes its default exactly when the prop is undefined.\<close>

definition default_param :: "js_value \<Rightarrow> js_value \<Rightarrow> js_value" where
  "default_param v d = (if v = JUndefined then d else v)"

section \<open>The analysis shown by the front end\<close>

text \<open>
  \<^verbatim>\<open>analysis\<close> is either \<^verbatim>\<open>null\<close> or an object with \<^verbatim>\<open>summary\<close>,
  \<^verbatim>\<open>key_clauses\<close> and \<^verbatim>\<open>risk_assessment\<close>. The code guards against an absent
  \<^verbatim>\<open>risk_assessment\<close>, so that field is optional.
\<close>

record key_clause =
  clause :: string
  explanation :: string

record analysis_result =
  summary :: string
  key_clauses :: "key_clause list"
  risk_assessment :: "string option"

text \<open>A string is truthy when it is not empty; \<^verbatim>\<open>undefined\<close> and \<^verbatim>\<open>null\<close> are falsy.\<close>

definition truthy :: "string option \<Rightarrow> bool" where
  "truthy v = (case v of None \<Rightarrow> False | Some s \<Rightarrow> s \<noteq> [])"

text \<open>\<^verbatim>\<open>getRiskLevel\<close> of \<^verbatim>\<open>DocumentAnalysis\<close> (App.js).\<close>

definition getRiskLevel :: "analysis_result option \<Rightarrow> string" where
  "getRiskLevel a =
     (case a of
        None \<Rightarrow> ''low''
      | Some r \<Rightarrow>
          if \<not> truthy (risk_assessment r) then ''low''
          else
            let riskText = toLowerCase (the (risk_assessment r)) in
            if str_includes riskText ''high'' \<or> str_includes riskText ''severe''
               \<or> str_includes riskText ''critical'' then ''high''
            else if str_includes riskText ''medium'' \<or> str_includes riskText ''moderate'' then ''medium''
            else ''low'')"

text \<open>\<^verbatim>\<open>getRiskLevel\<close> of \<^verbatim>\<open>ExportReport\<close>: the same function, written a second time.\<close>

definition export_getRiskLevel :: "analysis_result option \<Rightarrow> string" where
  "export_getRiskLevel a =
     (case a of
        None \<Rightarrow> ''low''
      | Some r \<Rightarrow>
          if \<not> truthy (risk_assessment r) then ''low''
          else
            let riskText = toLowerCase (the (risk_assessment r)) in
            if str_includes riskText ''high'' \<or> str_includes riskText ''severe''
               \<or> str_includes riskText ''critical'' then ''high''
            else if str_includes riskText ''medium'' \<or> str_includes riskText ''moderate'' then ''medium''
            else ''low'')"

section \<open>RiskMeter\<close>

record risk_meter_props =
  riskLevel :: js_value
  riskScore :: js_value

record risk_meter_view =
  percentage :: real
  riskColor :: string

text \<open>The \<^verbatim>\<open>switch\<close> on \<^verbatim>\<open>riskLevel.toLowerCase()\<close>; the method exists on strings only.\<close>

definition levelPercentage :: "js_value \<Rightarrow> js_error + real" where
  "levelPercentage lvl =
     (case lvl of
        JString s \<Rightarrow>
          (let l = toLowerCase s in
           if l = ''high'' then Inr 85
           else if l = ''medium'' then Inr 60
           else if l = ''low'' then Inr 25
           else Inr 50)
      | _ \<Rightarrow> Inl TypeError)"

definition getRiskPercentage :: "js_value \<Rightarrow> js_value \<Rightarrow> js_error + real" where
  "getRiskPercentage lvl score =
     (case score of
        JNumber (Finite x) \<Rightarrow> if 0 \<le> x \<and> x \<le> 100 then Inr x else levelPercentage lvl
      | _ \<Rightarrow> levelPercentage lvl)"

definition RiskMeter :: "risk_meter_props \<Rightarrow> js_error + risk_meter_view" where
  "RiskMeter props =
     (let lvl = default_param (riskLevel props) (JString ''low'');
          score = default_param (riskScore props) (JNumber (Finite 0))
      in case getRiskPercentage lvl score of
           Inl e \<Rightarrow> Inl e
         | Inr p \<Rightarrow>
             Inr \<lparr>percentage = p,
                  riskColor = (if p > 70 then ''#ff4444'' else if p > 40 then ''#ffaa00''
                               else ''#44ff44'')\<rparr>)"

text \<open>The two call sites: \<^verbatim>\<open><RiskMeter riskLevel={getRiskLevel()} />\<close>.\<close>

definition risks_tab_meter :: "analysis_result option \<Rightarrow> js_error + risk_meter_view" where
  "risks_tab_meter a = RiskMeter \<lparr>riskLevel = JString (getRiskLevel a), riskScore = JUndefined\<rparr>"

definition export_report_meter :: "analysis_result option \<Rightarrow> js_error + risk_meter_view" where
  "export_report_meter a =
     RiskMeter \<lparr>riskLevel = JString (export_getRiskLevel a), riskScore = JUndefined\<rparr>"

section \<open>DocumentAnalysis: documents, component state and requests\<close>

text \<open>
  A document as the back end sends it. The analysis fields may be missing, and the
  component tests for that.
\<close>

record document =
  doc_id :: string
  filename :: string
  upload_date :: string
  analysis_status :: string
  doc_summary :: "string option"
  doc_key_clauses :: "key_clause list option"
  doc_risk_assessment :: "string option"

datatype http_error = RequestFailed

text \<open>The axios calls of the component: analyze, ask and the chat history.\<close>

datatype request = PostAnalyze string | PostAsk string string | GetChat string

record chat_entry =
  chat_question :: string
  chat_answer :: string
  chat_timestamp :: nat

text \<open>
  The \<^verbatim>\<open>useState\<close> cells of \<^verbatim>\<open>DocumentAnalysis\<close>, with the requests issued and the
  alerts shown so far as a log of its effects.
\<close>

record component =
  analysis :: "analysis_result option"
  isAnalyzing :: bool
  question :: string
  chatHistory :: "chat_entry list"
  isAsking :: bool
  activeTab :: string
  requests :: "request list"
  alerts :: "string list"

definition initial_state :: component where
  "initial_state =
     \<lparr>analysis = None, isAnalyzing = False, question = [], chatHistory = [],
      isAsking = False, activeTab = ''summary'', requests = [], alerts = []\<rparr>"

text \<open>
  \<^verbatim>\<open>analyzeDocument\<close> runs up to its \<^verbatim>\<open>await\<close>, and resumes when the response
  arrives: the two halves are separate steps, since other handlers can run in between.
\<close>

definition analyzeDocument_start :: "document \<Rightarrow> component \<Rightarrow> component" where
  "analyzeDocument_start doc st =
     st\<lparr>isAnalyzing := True, requests := requests st @ [PostAnalyze (doc_id doc)]\<rparr>"

definition analyzeDocument_finish ::
  "http_error + analysis_result \<Rightarrow> component \<Rightarrow> component" where
  "analyzeDocument_finish response st =
     (case response of
        Inr data \<Rightarrow> st\<lparr>analysis := Some data, activeTab := ''summary'', isAnalyzing := False\<rparr>
      | Inl e \<Rightarrow>
          st\<lparr>alerts := alerts st @ [''Analysis failed. Please try again.''],
             isAnalyzing := False\<rparr>)"

definition analyzeDocument ::
  "document \<Rightarrow> http_error + analysis_result \<Rightarrow> component \<Rightarrow> component" where
  "analyzeDocument doc response st = analyzeDocument_finish response (analyzeDocument_start doc st)"

definition loadChatHistory_start :: "document \<Rightarrow> component \<Rightarrow> component" where
  "loadChatHistory_start doc st = st\<lparr>requests := requests st @ [GetChat (doc_id doc)]\<rparr>"

definition loadChatHistory_finish ::
  "http_error + chat_entry list \<Rightarrow> component \<Rightarrow> component" where
  "loadChatHistory_finish response st =
     (case response of Inr data \<Rightarrow> st\<lparr>chatHistory := data\<rparr> | Inl e \<Rightarrow> st)"

text \<open>\<^verbatim>\<open>document.key_clauses || []\<close> and \<^verbatim>\<open>document.risk_assessment || ''\<close>.\<close>

definition or_empty_list :: "'a list option \<Rightarrow> 'a list" where
  "or_empty_list v = (case v of Some xs \<Rightarrow> xs | None \<Rightarrow> [])"

definition or_empty_string :: "string option \<Rightarrow> string" where
  "or_empty_string v = (if truthy v then the v else [])"

text \<open>The effect that runs when the component receives its document.\<close>

definition useEffect :: "document \<Rightarrow> component \<Rightarrow> component" where
  "useEffect doc st =
     loadChatHistory_start doc
       (if analysis_status doc = ''completed'' \<and> truthy (doc_summary doc) then
          st\<lparr>analysis :=
               Some \<lparr>summary = the (doc_summary doc),
                     key_clauses = or_empty_list (doc_key_clauses doc),
                     risk_assessment = Some (or_empty_string (doc_risk_assessment doc))\<rparr>\<rparr>
        else if analysis_status doc = ''pending'' then analyzeDocument_start doc st
        else st)"

text \<open>
  Opening a document: the effect runs on the fresh component, then the responses of the
  requests it issued arrive.
\<close>

definition mount ::
  "document \<Rightarrow> http_error + analysis_result \<Rightarrow> http_error + chat_entry list \<Rightarrow> component" where
  "mount doc analyze_response chat_response =
     (let st1 = useEffect doc initial_state;
          st2 = (if isAnalyzing st1 then analyzeDocument_finish analyze_response st1 else st1)
      in loadChatHistory_finish chat_response st2)"

definition is_analyze :: "request \<Rightarrow> bool" where
  "is_analyze r = (case r of PostAnalyze d \<Rightarrow> True | _ \<Rightarrow> False)"




section \<open>Asking questions\<close>

text \<open>
  JavaScript's \<^verbatim>\<open>trim\<close> removes white space and line terminators from both ends:
  the ASCII ones, the no-break space, the byte order mark and the Unicode space
  separators. A string is held as its UTF-8 bytes, so each of these characters is a
  sequence of one to three bytes.
\<close>

definition js_white_space :: "string list" where
  "js_white_space =
     [[CHR 0x09], [CHR 0x0A], [CHR 0x0B], [CHR 0x0C], [CHR 0x0D], [CHR 0x20],
      [CHR 0xC2, CHR 0xA0],
      [CHR 0xE1, CHR 0x9A, CHR 0x80],
      [CHR 0xE2, CHR 0x80, CHR 0x80], [CHR 0xE2, CHR 0x80, CHR 0x81],
      [CHR 0xE2, CHR 0x80, CHR 0x82], [CHR 0xE2, CHR 0x80, CHR 0x83],
      [CHR 0xE2, CHR 0x80, CHR 0x84], [CHR 0xE2, CHR 0x80, CHR 0x85],
      [CHR 0xE2, CHR 0x80, CHR 0x86], [CHR 0xE2, CHR 0x80, CHR 0x87],
      [CHR 0xE2, CHR 0x80, CHR 0x88], [CHR 0xE2, CHR 0x80, CHR 0x89],
      [CHR 0xE2, CHR 0x80, CHR 0x8A],
      [CHR 0xE2, CHR 0x80, CHR 0xA8], [CHR 0xE2, CHR 0x80, CHR 0xA9],
      [CHR 0xE2, CHR 0x80, CHR 0xAF],
      [CHR 0xE2, CHR 0x81, CHR 0x9F],
      [CHR 0xE3, CHR 0x80, CHR 0x80],
      [CHR 0xEF, CHR 0xBB, CHR 0xBF]]"

text \<open>
  Dropping from the front every leading occurrence of one of the given byte sequences;
  \<open>k\<close> counts the bytes of the current occurrence that are still to be dropped.
\<close>

fun strip_leading :: "string list \<Rightarrow> nat \<Rightarrow> string \<Rightarrow> string" where
  "strip_leading toks k [] = []"
| "strip_leading toks k (c # cs) =
     (if k > 0 then strip_leading toks (k - 1) cs
      else case find (startsWith (c # cs)) toks of
             Some w \<Rightarrow> strip_leading toks (length w - 1) cs
           | None \<Rightarrow> c # cs)"

definition trimStart :: "string \<Rightarrow> string" where
  "trimStart s = strip_leading js_white_space 0 s"

definition trimEnd :: "string \<Rightarrow> string" where
  "trimEnd s = rev (strip_leading (map rev js_white_space) 0 (rev s))"

definition trim :: "string \<Rightarrow> string" where
  "trim s = trimEnd (trimStart s)"

text \<open>
  \<^verbatim>\<open>askQuestion\<close>, given the outcome of the request and the reading of the clock when
  the answer arrives (\<^verbatim>\<open>new Date()\<close>, in milliseconds; \<^verbatim>\<open>toISOString\<close> prints it).
\<close>

definition askQuestion ::
  "document \<Rightarrow> http_error + string \<Rightarrow> nat \<Rightarrow> component \<Rightarrow> component" where
  "askQuestion doc response now st =
     (if trim (question st) = [] then st
      else
        let st1 = st\<lparr>isAsking := True,
                     requests := requests st @ [PostAsk (doc_id doc) (question st)]\<rparr>
        in case response of
             Inr answer \<Rightarrow>
               st1\<lparr>chatHistory := chatHistory st1 @
                      [\<lparr>chat_question = question st, chat_answer = answer, chat_timestamp = now\<rparr>],
                   question := [],
                   isAsking := False\<rparr>
           | Inl e \<Rightarrow>
               st1\<lparr>alerts := alerts st1 @ [''Failed to ask question. Please try again.''],
                   isAsking := False\<rparr>)"

text \<open>
  One call of \<^verbatim>\<open>askQuestion\<close>: what the user typed, the outcome of the request and the
  reading of the clock when the answer arrives. Calls come one after the other: the
  button is disabled while \<^verbatim>\<open>isAsking\<close>.
\<close>

record ask_call =
  typed :: string
  outcome :: "http_error + string"
  clock :: nat

text \<open>
  What happens to the chat log of an open document: a question is asked and settles, or
  the response of \<^verbatim>\<open>loadChatHistory\<close> arrives, whenever the back end sends it.
\<close>

datatype chat_event = Ask ask_call | HistoryLoaded "http_error + chat_entry list"

fun chat_step :: "document \<Rightarrow> component \<Rightarrow> chat_event \<Rightarrow> component" where
  "chat_step doc st (Ask c) =
     askQuestion doc (outcome c) (clock c) (st\<lparr>question := typed c\<rparr>)"
| "chat_step doc st (HistoryLoaded response) = loadChatHistory_finish response st"

definition session :: "document \<Rightarrow> component \<Rightarrow> chat_event list \<Rightarrow> component" where
  "session doc st evs = foldl (chat_step doc) st evs"

definition getChatHistory :: "component \<Rightarrow> chat_entry list" where
  "getChatHistory st = chatHistory st"

text \<open>The calls that get an answer, and the entry each of them leaves in the log.\<close>

definition answered :: "ask_call \<Rightarrow> bool" where
  "answered c = (trim (typed c) \<noteq> [] \<and> \<not> isl (outcome c))"

definition entry_of :: "ask_call \<Rightarrow> chat_entry" where
  "entry_of c =
     \<lparr>chat_question = typed c, chat_answer = projr (outcome c), chat_timestamp = clock c\<rparr>"

section \<open>The key clauses tab\<close>

record clause_item =
  clause_key :: nat
  clause_number :: nat
  clause_heading :: string
  clause_text :: string

datatype clauses_view = ClausesList "clause_item list" | ClauseExtract string

text \<open>\<^verbatim>\<open>s.split(sep)\<close> for a separator that is not empty.\<close>

fun split_go :: "string \<Rightarrow> nat \<Rightarrow> string \<Rightarrow> string \<Rightarrow> string list" where
  "split_go sep k acc [] = [rev acc]"
| "split_go sep k acc (c # cs) =
     (if k > 0 then split_go sep (k - 1) acc cs
      else if startsWith (c # cs) sep then rev acc # split_go sep (length sep - 1) [] cs
      else split_go sep 0 (c # acc) cs)"

definition split :: "string \<Rightarrow> string \<Rightarrow> string list" where
  "split s sep = split_go sep 0 [] s"

text \<open>
  The two section markers of the older summary format: the bytes of the string literals as
  they stand in the source file.
\<close>

definition key_clauses_marker :: string where
  "key_clauses_marker =
     ''## '' @ [CHR 0xEF, CHR 0xA3, CHR 0xBF, CHR 0xC3, CHR 0xBC, CHR 0xC3, CHR 0xAE,
               CHR 0xC3, CHR 0xAB] @ '' KEY CLAUSES''"

definition warning_marker :: string where
  "warning_marker =
     ''## '' @ [CHR 0xE2, CHR 0x80, CHR 0x9A, CHR 0xC3, CHR 0xB6, CHR 0xE2, CHR 0x80, CHR 0xA0,
               CHR 0xC3, CHR 0x94, CHR 0xE2, CHR 0x88, CHR 0x8F, CHR 0xC3, CHR 0xA8]"

definition clause_extract :: "string \<Rightarrow> string" where
  "clause_extract s =
     (if str_includes s key_clauses_marker then
        (case split s key_clauses_marker of
           p0 # p1 # ps \<Rightarrow>
             (case split p1 warning_marker of
                q0 # qs \<Rightarrow> if q0 \<noteq> [] then q0 else p1
              | [] \<Rightarrow> p1)
         | _ \<Rightarrow> [])
      else ''Key clauses information not available'')"

text \<open>
  The tab maps over \<^verbatim>\<open>analysis.key_clauses\<close> with the array index; the number shown is
  \<^verbatim>\<open>index + 1\<close>.
\<close>

definition clauses_tab :: "analysis_result \<Rightarrow> clauses_view" where
  "clauses_tab a =
     (if length (key_clauses a) > 0 then
        ClausesList
          (map (\<lambda>(index, c). \<lparr>clause_key = index, clause_number = index + 1,
                               clause_heading = clause c, clause_text = explanation c\<rparr>)
               (enumerate 0 (key_clauses a)))
      else ClauseExtract (clause_extract (summary a)))"

section \<open>The analysis response parser\<close>

text \<open>
  Modelled from the spec: the response parser of the back end, which is not among the sources. The
  specification (section 4.1) describes it as a function from the raw text of the AI to
  an analysis record or the failure \<open>EmptyInput\<close>; the definitions of this section
  follow that description.
\<close>

datatype ParseError = EmptyInput

text \<open>
  Modelled from the spec: a clause entry (section 3) of the response parser of the back end, which is not among the sources: a 1-based
  index, a title and an explanation.
\<close>

record ClauseEntry =
  index :: nat
  title :: string
  explanation_text :: string

text \<open>
  Modelled from the spec: the analysis record (section 3) produced by the response parser of the back end, which is not among the sources:
  the summary as a sequence of prose blocks, the clause entries and the risk text.
\<close>

record AnalysisRecord =
  summary_blocks :: "string list"
  keyClauses :: "ClauseEntry list"
  riskAssessment :: string

text \<open>
  Modelled from the spec: the four section headers recognized by the response parser of the back end, which is not among the sources.
\<close>

datatype header = ExecutiveSummary | KeyClausesAnalysis | RiskAssessment | PlainEnglishExplanation

text \<open>
  Modelled from the spec: the white space of the response parser of the back end, which is
  not among the sources: the ASCII white-space characters.
\<close>

definition is_space :: "char \<Rightarrow> bool" where
  "is_space c = (c \<in> set [CHR '' '', CHR 0x09, CHR 0x0A, CHR 0x0B, CHR 0x0C, CHR 0x0D])"

text \<open>
  Modelled from the spec: removing the white space around a title or an explanation, in
  the response parser of the back end, which is not among the sources.
\<close>

definition strip_ws :: "string \<Rightarrow> string" where
  "strip_ws s = rev (dropWhile is_space (rev (dropWhile is_space s)))"

text \<open>
  Modelled from the spec: the test for an empty or whitespace-only text, in the response parser of the back end, which is not among the sources.
\<close>

definition is_blank :: "string \<Rightarrow> bool" where
  "is_blank s = list_all is_space s"

text \<open>
  Modelled from the spec: the lines of the raw text, for the response parser of the back end, which is not among the sources: the text is
  cut at each line feed.
\<close>

fun lines_go :: "string \<Rightarrow> string \<Rightarrow> string list" where
  "lines_go acc [] = [rev acc]"
| "lines_go acc (c # cs) =
     (if c = CHR 0x0A then rev acc # lines_go [] cs else lines_go (c # acc) cs)"

text \<open>
  Modelled from the spec: the lines of the raw text, for the response parser of the back end, which is not among the sources.
\<close>

definition lines_of :: "string \<Rightarrow> string list" where
  "lines_of s = lines_go [] s"

text \<open>
  Modelled from the spec: the text of a run of lines, for the response parser of the back end, which is not among the sources: the lines
  with a line feed between them.
\<close>

fun join_lines :: "string list \<Rightarrow> string" where
  "join_lines [] = []"
| "join_lines [l] = l"
| "join_lines (l # l' # ls) = l @ CHR 0x0A # join_lines (l' # ls)"

text \<open>
  Modelled from the spec: whitespace normalization of a header line, for the response parser of the back end, which is not among the sources:
  the words of the line.
\<close>

fun words_go :: "string \<Rightarrow> string \<Rightarrow> string list" where
  "words_go acc [] = (if acc = [] then [] else [rev acc])"
| "words_go acc (c # cs) =
     (if is_space c then (if acc = [] then words_go [] cs else rev acc # words_go [] cs)
      else words_go (c # acc) cs)"

text \<open>
  Modelled from the spec: whitespace normalization, for the response parser of the back end, which is not among the sources: the words with
  one space between them.
\<close>

fun join_words :: "string list \<Rightarrow> string" where
  "join_words [] = []"
| "join_words [w] = w"
| "join_words (w # w' # ws) = w @ CHR '' '' # join_words (w' # ws)"

text \<open>
  Modelled from the spec: whitespace normalization, for the response parser of the back end, which is not among the sources.
\<close>

definition normalize_ws :: "string \<Rightarrow> string" where
  "normalize_ws s = join_words (words_go [] s)"

text \<open>
  Modelled from the spec: the markdown heading prefix a header line may carry, for the response parser of the back end, which is not among the sources.
\<close>

definition strip_heading_prefix :: "string \<Rightarrow> string" where
  "strip_heading_prefix l = dropWhile (\<lambda>c. c = CHR ''#'') (dropWhile is_space l)"

text \<open>
  Modelled from the spec: header recognition in the response parser of the back end, which is not among the sources: a line is a
  header when, without its heading prefix, with its white space normalized and without
  regard to letter case, it is exactly one of the four header texts.
\<close>

definition header_of_line :: "string \<Rightarrow> header option" where
  "header_of_line l =
     (let t = toUpperCase (normalize_ws (strip_heading_prefix l)) in
      if t = ''EXECUTIVE SUMMARY'' then Some ExecutiveSummary
      else if t = ''KEY CLAUSES ANALYSIS'' then Some KeyClausesAnalysis
      else if t = ''RISK ASSESSMENT'' then Some RiskAssessment
      else if t = ''PLAIN ENGLISH EXPLANATION'' then Some PlainEnglishExplanation
      else None)"

text \<open>
  Modelled from the spec: segmentation in the response parser of the back end, which is not among the sources: each recognized header
  begins a section, whose content is every line up to the next recognized header or the
  end of the text. The first segment, under no header, is the content before the first
  recognized header. A line that is not a recognized header never begins a section.
\<close>

fun segment :: "header option \<Rightarrow> string list \<Rightarrow> string list \<Rightarrow> (header option \<times> string list) list" where
  "segment cur acc [] = [(cur, rev acc)]"
| "segment cur acc (l # ls) =
     (case header_of_line l of
        Some h \<Rightarrow> (cur, rev acc) # segment (Some h) [] ls
      | None \<Rightarrow> segment cur (l # acc) ls)"

text \<open>
  Modelled from the spec: the segments of a raw text, for the response parser of the back end, which is not among the sources.
\<close>

definition sections :: "string \<Rightarrow> (header option \<times> string list) list" where
  "sections raw = segment None [] (lines_of raw)"

text \<open>
  Modelled from the spec: a header that is not in the recognized set, for the response
  parser of the back end, which is not among the sources: a line with a markdown heading
  prefix that is not one of the four recognized headers.
\<close>

definition is_other_heading :: "string \<Rightarrow> bool" where
  "is_other_heading l = (header_of_line l = None \<and> startsWith (dropWhile is_space l) ''#'')"

text \<open>
  Modelled from the spec: the lines a segment keeps for its own section, for the response
  parser of the back end, which is not among the sources. Under a recognized header these
  are the lines up to the first header that is not recognized; the content before the
  first recognized header is kept whole.
\<close>

definition own_lines :: "header option \<times> string list \<Rightarrow> string list" where
  "own_lines seg =
     (if fst seg = None then snd seg else takeWhile (\<lambda>l. \<not> is_other_heading l) (snd seg))"

text \<open>
  Modelled from the spec: the lines of a segment that stand under a header that is not
  recognized, that header included, for the response parser of the back end, which is
  not among the sources.
\<close>

definition stray_lines :: "header option \<times> string list \<Rightarrow> string list" where
  "stray_lines seg =
     (if fst seg = None then [] else dropWhile (\<lambda>l. \<not> is_other_heading l) (snd seg))"

text \<open>
  Modelled from the spec: the lines of a section, for the response parser of the back end, which is not among the sources; \<open>None\<close> is the
  content before the first recognized header.
\<close>

definition section_lines :: "header option \<Rightarrow> string \<Rightarrow> string list" where
  "section_lines k raw =
     concat (map own_lines (filter (\<lambda>seg. fst seg = k) (sections raw)))"

text \<open>
  Modelled from the spec: the content under headers that are not in the recognized set,
  for the response parser of the back end, which is not among the sources. It is
  unstructured summary content, in the order of the text.
\<close>

definition unrecognized_content :: "string \<Rightarrow> string" where
  "unrecognized_content raw = join_lines (concat (map stray_lines (sections raw)))"

text \<open>
  Modelled from the spec: the content of a section, for the response parser of the back end, which is not among the sources: all its text.
\<close>

definition section_content :: "header option \<Rightarrow> string \<Rightarrow> string" where
  "section_content k raw = join_lines (section_lines k raw)"

text \<open>
  Modelled from the spec: the unstructured content before the first recognized header, for
  the response parser of the back end, which is not among the sources.
\<close>

definition leading_content :: "string \<Rightarrow> string" where
  "leading_content raw = section_content None raw"

text \<open>
  Modelled from the spec: the fixed placeholder of the response parser of the back end, which is not among the sources for a text with
  no summary to extract.
\<close>

definition no_summary_placeholder :: string where
  "no_summary_placeholder = ''No summary extracted''"

text \<open>
  Modelled from the spec: the summary built by the response parser of the back end, which is not among the sources: the content of the
  executive summary section, with the unstructured content appended to it (the content
  before the first recognized header, then the content under headers that are not
  recognized), blank blocks left out, and the placeholder when nothing is left.
\<close>

definition summary_of :: "string \<Rightarrow> string list" where
  "summary_of raw =
     (let blocks = filter (\<lambda>b. \<not> is_blank b)
                     [section_content (Some ExecutiveSummary) raw, leading_content raw,
                      unrecognized_content raw]
      in if blocks = [] then [no_summary_placeholder] else blocks)"

text \<open>
  Modelled from the spec: the digits of a numbered marker, for the response parser of the back end, which is not among the sources.
\<close>

definition is_digit :: "char \<Rightarrow> bool" where
  "is_digit c = (c \<in> set ''0123456789'')"

text \<open>
  Modelled from the spec: the numbered marker of the response parser of the back end, which is not among the sources: digits and a
  separator (a full stop or a closing parenthesis) at the start of a line; the result is
  the rest of the line.
\<close>

definition marker_rest :: "string \<Rightarrow> string option" where
  "marker_rest l =
     (if takeWhile is_digit l = [] then None
      else case dropWhile is_digit l of
             [] \<Rightarrow> None
           | c # rest \<Rightarrow> if c = CHR ''.'' \<or> c = CHR '')'' then Some rest else None)"

text \<open>
  Modelled from the spec: clause extraction in the response parser of the back end, which is not among the sources: the key clauses
  section is cut at its numbered markers, and each marker begins a sub-segment that runs
  to the next marker.
\<close>

fun numbered_segments :: "string list option \<Rightarrow> string list \<Rightarrow> string list list" where
  "numbered_segments cur [] = (case cur of None \<Rightarrow> [] | Some acc \<Rightarrow> [rev acc])"
| "numbered_segments cur (l # ls) =
     (case marker_rest l of
        Some rest \<Rightarrow>
          (case cur of None \<Rightarrow> [] | Some acc \<Rightarrow> [rev acc]) @ numbered_segments (Some [rest]) ls
      | None \<Rightarrow>
          (case cur of
             None \<Rightarrow> numbered_segments None ls
           | Some acc \<Rightarrow> numbered_segments (Some (l # acc)) ls))"

text \<open>
  Modelled from the spec: the end of a clause title in the response parser of the back end, which is not among the sources: the first
  sentence break or line break.
\<close>

definition is_title_break :: "char \<Rightarrow> bool" where
  "is_title_break c = (c \<in> set [CHR ''.'', CHR '':'', CHR ''!'', CHR ''?'', CHR 0x0A])"

text \<open>
  Modelled from the spec: one clause entry of the response parser of the back end, which is not among the sources: the text after the
  number up to the first break is the title, the remainder the explanation.
\<close>

definition clause_of :: "nat \<Rightarrow> string list \<Rightarrow> ClauseEntry" where
  "clause_of i seg =
     (let text = join_lines seg in
      \<lparr>index = i,
       title = strip_ws (takeWhile (\<lambda>c. \<not> is_title_break c) text),
       explanation_text = strip_ws (drop 1 (dropWhile (\<lambda>c. \<not> is_title_break c) text))\<rparr>)"

text \<open>
  Modelled from the spec: the clause entries of the response parser of the back end, which is not among the sources, numbered from 1 in
  extraction order; with no numbered marker the whole section is one entry titled
  \<open>General Clauses\<close>.
\<close>

definition extract_clauses :: "string \<Rightarrow> ClauseEntry list" where
  "extract_clauses raw =
     (let segs = numbered_segments None (section_lines (Some KeyClausesAnalysis) raw) in
      if segs = [] then
        [\<lparr>index = 1, title = ''General Clauses'',
          explanation_text = section_content (Some KeyClausesAnalysis) raw\<rparr>]
      else map (\<lambda>(i, seg). clause_of (i + 1) seg) (enumerate 0 segs))"

text \<open>
  Modelled from the spec: the entry point of the response parser of the back end, which is not among the sources: \<open>EmptyInput\<close> for an
  empty or whitespace-only text, a record for every other text.
\<close>

definition parse :: "string \<Rightarrow> ParseError + AnalysisRecord" where
  "parse raw =
     (if is_blank raw then Inl EmptyInput
      else Inr \<lparr>summary_blocks = summary_of raw,
                keyClauses = extract_clauses raw,
                riskAssessment = section_content (Some RiskAssessment) raw\<rparr>)"

text \<open>The end-to-end scenario of the specification (section 8).\<close>

definition nl :: string where "nl = [CHR 0x0A]"

definition scenario :: string where
  "scenario = ''Some preamble.'' @ nl @ ''EXECUTIVE SUMMARY'' @ nl @ ''This is a lease.'' @ nl
     @ ''KEY CLAUSES ANALYSIS'' @ nl @ ''1. Payment Terms: Rent due monthly.'' @ nl
     @ ''2. Termination: 30 day notice.'' @ nl @ ''RISK ASSESSMENT'' @ nl @ ''Moderate risk.''"

section \<open>Example documents\<close>

definition lease :: document where
  "lease = \<lparr>doc_id = ''d1'', filename = ''lease.pdf'', upload_date = ''2024-01-01'',
            analysis_status = ''completed'', doc_summary = Some ''A lease.'',
            doc_key_clauses = Some [\<lparr>clause = ''Rent'', explanation = ''Monthly.''\<rparr>],
            doc_risk_assessment = Some ''Moderate risk.''\<rparr>"

definition bare :: document where
  "bare = \<lparr>doc_id = ''d2'', filename = ''nda.pdf'', upload_date = ''2024-01-02'',
           analysis_status = ''completed'', doc_summary = Some [],
           doc_key_clauses = Some [\<lparr>clause = ''Term'', explanation = ''Two years.''\<rparr>],
           doc_risk_assessment = Some ''Low risk.''\<rparr>"


section \<open>Strings: the scan agrees with the substring relation\<close>

lemma startsWith_prefix: "startsWith s w \<longleftrightarrow> prefix w s"
  by (induction s w rule: startsWith.induct) auto

lemma includes_sublist: "str_includes s w \<longleftrightarrow> sublist w s"
proof (induction s)
  case Nil
  show ?case by simp
next
  case (Cons c cs)
  show ?case
    using Cons.IH by (simp add: startsWith_prefix sublist_Cons_right)
qed

lemma toLowerCase_append: "toLowerCase (a @ b) = toLowerCase a @ toLowerCase b"
  by (simp add: toLowerCase_def)

lemma includes_lower_mid:
  "toLowerCase mid = w \<Longrightarrow> str_includes (toLowerCase (pre @ mid @ post)) w"
  unfolding includes_sublist sublist_def toLowerCase_append by blast

section \<open>The risk level and the risk meter\<close>

text \<open>
  C9. When the \<^verbatim>\<open>riskScore\<close> prop is omitted, as at both call sites of the repository,
  it defaults to 0, the numeric branch is taken and the meter shows 0 percent in the
  low colour, whatever \<^verbatim>\<open>riskLevel\<close> is. The level table (high 85, medium 60, low 25)
  is reached only when the score is not a number between 0 and 100.
\<close>

theorem risk_meter_without_score:
  "default_param JUndefined (JNumber (Finite 0)) = JNumber (Finite 0)
   \<and> getRiskPercentage lvl (JNumber (Finite 0)) = Inr 0
   \<and> RiskMeter \<lparr>riskLevel = lvl, riskScore = JUndefined\<rparr>
       = Inr \<lparr>percentage = 0, riskColor = ''#44ff44''\<rparr>
   \<and> risks_tab_meter a = Inr \<lparr>percentage = 0, riskColor = ''#44ff44''\<rparr>
   \<and> export_report_meter a = Inr \<lparr>percentage = 0, riskColor = ''#44ff44''\<rparr>
   \<and> getRiskPercentage (JString ''high'') (JNumber NaN) = Inr 85
   \<and> getRiskPercentage (JString ''medium'') (JNumber NaN) = Inr 60
   \<and> getRiskPercentage (JString ''low'') (JNumber NaN) = Inr 25"
  by (simp add: default_param_def getRiskPercentage_def RiskMeter_def risks_tab_meter_def
      export_report_meter_def levelPercentage_def toLowerCase_def toLowerChar_def
      upper_letters_def lower_letters_def)

text \<open>
  C10. \<^verbatim>\<open>getRiskLevel\<close> (both copies) lower-cases the risk assessment and looks for
  substrings in a fixed order: \<open>high\<close>, \<open>severe\<close> or \<open>critical\<close> anywhere gives
  \<open>high\<close>; otherwise \<open>medium\<close> or \<open>moderate\<close> gives \<open>medium\<close>; otherwise \<open>low\<close>.
  An absent analysis or risk assessment gives \<open>low\<close>. The match is on substrings, so a
  keyword inside a longer word counts, in any letter case.
\<close>

theorem getRiskLevel_classification:
  "export_getRiskLevel a = getRiskLevel a
   \<and> getRiskLevel a =
       (case a of
          None \<Rightarrow> ''low''
        | Some r \<Rightarrow>
            (case risk_assessment r of
               None \<Rightarrow> ''low''
             | Some t \<Rightarrow>
                 if sublist ''high'' (toLowerCase t) \<or> sublist ''severe'' (toLowerCase t)
                    \<or> sublist ''critical'' (toLowerCase t) then ''high''
                 else if sublist ''medium'' (toLowerCase t) \<or> sublist ''moderate'' (toLowerCase t)
                 then ''medium''
                 else ''low''))
   \<and> (\<forall>pre mid post.
         toLowerCase mid = ''high'' \<or> toLowerCase mid = ''severe'' \<or> toLowerCase mid = ''critical''
         \<longrightarrow> getRiskLevel (Some (r\<lparr>risk_assessment := Some (pre @ mid @ post)\<rparr>)) = ''high'')"
proof (intro conjI allI impI)
  show "export_getRiskLevel a = getRiskLevel a"
    by (simp add: export_getRiskLevel_def getRiskLevel_def)
next
  show "getRiskLevel a =
       (case a of
          None \<Rightarrow> ''low''
        | Some r \<Rightarrow>
            (case risk_assessment r of
               None \<Rightarrow> ''low''
             | Some t \<Rightarrow>
                 if sublist ''high'' (toLowerCase t) \<or> sublist ''severe'' (toLowerCase t)
                    \<or> sublist ''critical'' (toLowerCase t) then ''high''
                 else if sublist ''medium'' (toLowerCase t) \<or> sublist ''moderate'' (toLowerCase t)
                 then ''medium''
                 else ''low''))"
    by (simp add: getRiskLevel_def truthy_def includes_sublist toLowerCase_def
        split: option.splits)
next
  fix pre mid post
  assume m: "toLowerCase mid = ''high'' \<or> toLowerCase mid = ''severe''
             \<or> toLowerCase mid = ''critical''"
  then have nonempty: "mid \<noteq> []"
    by (auto simp: toLowerCase_def)
  from m have "str_includes (toLowerCase (pre @ mid @ post)) ''high''
               \<or> str_includes (toLowerCase (pre @ mid @ post)) ''severe''
               \<or> str_includes (toLowerCase (pre @ mid @ post)) ''critical''"
    using includes_lower_mid by blast
  with nonempty show "getRiskLevel (Some (r\<lparr>risk_assessment := Some (pre @ mid @ post)\<rparr>)) = ''high''"
    by (simp add: getRiskLevel_def truthy_def)
qed

theorem getRiskLevel_classification_witness:
  "getRiskLevel (Some \<lparr>summary = ''s'', key_clauses = [],
                       risk_assessment = Some ''Several Highlights''\<rparr>) = ''high''"
proof -
  have h: "toLowerCase ''High'' = ''high'' \<or> toLowerCase ''High'' = ''severe''
           \<or> toLowerCase ''High'' = ''critical''"
    by (simp add: toLowerCase_def toLowerChar_def upper_letters_def lower_letters_def)
  have "getRiskLevel (Some (\<lparr>summary = ''s'', key_clauses = [], risk_assessment = None\<rparr>
          \<lparr>risk_assessment := Some (''Several '' @ ''High'' @ ''lights'')\<rparr>)) = ''high''"
    using getRiskLevel_classification [THEN conjunct2, THEN conjunct2, rule_format, OF h] .
  then show ?thesis by simp
qed

section \<open>The chat log\<close>

text \<open>
  C7. When the request of \<^verbatim>\<open>askQuestion\<close> fails, the catch branch only raises an alert:
  the chat log (and the typed question) is what it was before the call; no entry is added.
\<close>

theorem failed_question_keeps_log:
  "chatHistory (askQuestion doc (Inl e) now st) = chatHistory st
   \<and> getChatHistory (askQuestion doc (Inl e) now st) = getChatHistory st
   \<and> question (askQuestion doc (Inl e) now st) = question st"
  by (simp add: askQuestion_def Let_def getChatHistory_def)

lemma askQuestion_history:
  "chatHistory (askQuestion doc (outcome c) (clock c) (st\<lparr>question := typed c\<rparr>))
     = chatHistory st @ (if answered c then [entry_of c] else [])"
  by (cases "outcome c") (simp_all add: askQuestion_def Let_def answered_def entry_of_def)

lemma session_asks_history:
  "chatHistory (session doc st (map Ask cs)) = chatHistory st @ map entry_of (filter answered cs)"
proof (induction cs arbitrary: st)
  case Nil
  show ?case by (simp add: session_def)
next
  case (Cons c cs)
  have "session doc st (map Ask (c # cs))
          = session doc (askQuestion doc (outcome c) (clock c) (st\<lparr>question := typed c\<rparr>))
              (map Ask cs)"
    by (simp add: session_def)
  then show ?case
    by (simp add: Cons.IH askQuestion_history)
qed

lemma trim_no_break_space: "trim [CHR 0xC2, CHR 0xA0] = []"
  by code_simp

text \<open>
  C6 (as amended). Questions asked one after the other, with no response of
  \<^verbatim>\<open>loadChatHistory\<close> arriving in between, leave their entries in the chat log in the
  order of the calls: the log after the calls is the log before them followed by one
  entry per call whose question was not blank and whose request succeeded, in call order.
  Nothing is merged or dropped, so when every call is answered the questions of the new
  entries are exactly the questions asked, repeated ones included, and the log grows by
  the number of calls. The timestamp of each new entry is the reading of the wall clock
  taken when its answer arrived.
\<close>

theorem asked_questions_appended_in_order:
  "getChatHistory (session doc st (map Ask cs))
     = getChatHistory st @ map entry_of (filter answered cs)
   \<and> map chat_question (map entry_of (filter answered cs)) = map typed (filter answered cs)
   \<and> map chat_timestamp (map entry_of (filter answered cs)) = map clock (filter answered cs)
   \<and> ((\<forall>c \<in> set cs. answered c) \<longrightarrow>
        map chat_question
            (drop (length (getChatHistory st)) (getChatHistory (session doc st (map Ask cs))))
          = map typed cs
        \<and> map chat_timestamp
            (drop (length (getChatHistory st)) (getChatHistory (session doc st (map Ask cs))))
          = map clock cs
        \<and> length (getChatHistory (session doc st (map Ask cs)))
          = length (getChatHistory st) + length cs)"
proof (intro conjI impI)
  show "getChatHistory (session doc st (map Ask cs))
        = getChatHistory st @ map entry_of (filter answered cs)"
    by (simp add: getChatHistory_def session_asks_history)
next
  show "map chat_question (map entry_of (filter answered cs)) = map typed (filter answered cs)"
    by (simp add: entry_of_def)
next
  show "map chat_timestamp (map entry_of (filter answered cs)) = map clock (filter answered cs)"
    by (simp add: entry_of_def)
next
  assume all: "\<forall>c \<in> set cs. answered c"
  then have f: "filter answered cs = cs" by simp
  show "map chat_question
            (drop (length (getChatHistory st)) (getChatHistory (session doc st (map Ask cs))))
          = map typed cs"
    by (simp add: getChatHistory_def session_asks_history f entry_of_def)
  show "map chat_timestamp
            (drop (length (getChatHistory st)) (getChatHistory (session doc st (map Ask cs))))
          = map clock cs"
    by (simp add: getChatHistory_def session_asks_history f entry_of_def)
  show "length (getChatHistory (session doc st (map Ask cs)))
          = length (getChatHistory st) + length cs"
    by (simp add: getChatHistory_def session_asks_history f)
qed

theorem asked_questions_appended_in_order_witness:
  "map chat_question (getChatHistory (session lease initial_state (map Ask
      [\<lparr>typed = ''Q1'', outcome = Inr ''A1'', clock = 10\<rparr>,
       \<lparr>typed = ''Q1'', outcome = Inr ''A2'', clock = 20\<rparr>,
       \<lparr>typed = ''Q3'', outcome = Inr ''A3'', clock = 30\<rparr>]))) = [''Q1'', ''Q1'', ''Q3'']
   \<and> map chat_timestamp (getChatHistory (session lease initial_state (map Ask
      [\<lparr>typed = ''Q1'', outcome = Inr ''A1'', clock = 10\<rparr>,
       \<lparr>typed = ''Q1'', outcome = Inr ''A2'', clock = 20\<rparr>,
       \<lparr>typed = ''Q3'', outcome = Inr ''A3'', clock = 30\<rparr>]))) = [10, 20, 30]"
proof -
  let ?cs = "[\<lparr>typed = ''Q1'', outcome = Inr ''A1'', clock = 10\<rparr>,
       \<lparr>typed = ''Q1'', outcome = Inr ''A2'', clock = 20\<rparr>,
       \<lparr>typed = ''Q3'', outcome = (Inr ''A3'' :: http_error + string), clock = 30\<rparr>]"
  have a: "\<forall>c \<in> set ?cs. answered c"
    by code_simp
  have e: "getChatHistory initial_state = []"
    by (simp add: getChatHistory_def initial_state_def)
  from asked_questions_appended_in_order [of lease initial_state ?cs] a
  have "map chat_question (drop (length (getChatHistory initial_state))
          (getChatHistory (session lease initial_state (map Ask ?cs)))) = map typed ?cs
        \<and> map chat_timestamp (drop (length (getChatHistory initial_state))
          (getChatHistory (session lease initial_state (map Ask ?cs)))) = map clock ?cs"
    by blast
  then show ?thesis unfolding e by simp
qed

text \<open>
  The claim as stated fails in two ways. The response of \<^verbatim>\<open>loadChatHistory\<close> replaces
  the log whenever it arrives, so an entry appended before it is gone afterwards. And the
  timestamp is a copy of the wall clock: when the clock is set back between two answers,
  the later entry carries the smaller timestamp.
\<close>

theorem late_history_and_clock_counterexample:
  "getChatHistory (session lease initial_state
      [Ask \<lparr>typed = ''Q1'', outcome = Inr ''A1'', clock = 1000\<rparr>, HistoryLoaded (Inr [])]) = []
   \<and> map chat_timestamp (getChatHistory (session lease initial_state
      [Ask \<lparr>typed = ''Q1'', outcome = Inr ''A1'', clock = 2000\<rparr>,
       Ask \<lparr>typed = ''Q2'', outcome = Inr ''A2'', clock = 1000\<rparr>])) = [2000, 1000]"
  by code_simp

section \<open>Opening a document\<close>

text \<open>
  C1 (as amended). Opening a document whose status is \<open>completed\<close> never posts an
  analyze request. If its stored summary is not empty, the analysis shown is the stored
  one: the summary, the key clauses (none when the field is absent) and the risk
  assessment (empty when absent); a record with all three fields present is shown
  unchanged. If the summary is empty or absent, no analysis is set. Opening a document
  posts an analyze request exactly when its status is \<open>pending\<close>.
\<close>

theorem completed_document_served_from_store:
  "(analysis_status doc = ''completed'' \<longrightarrow>
      (\<forall>r \<in> set (requests (mount doc ar cr)). \<not> is_analyze r)
      \<and> analysis (mount doc ar cr) =
          (if truthy (doc_summary doc) then
             Some \<lparr>summary = the (doc_summary doc),
                   key_clauses = or_empty_list (doc_key_clauses doc),
                   risk_assessment = Some (or_empty_string (doc_risk_assessment doc))\<rparr>
           else None)
      \<and> (\<forall>s cs t. doc_summary doc = Some s \<and> s \<noteq> [] \<and> doc_key_clauses doc = Some cs
             \<and> doc_risk_assessment doc = Some t \<longrightarrow>
           analysis (mount doc ar cr)
             = Some \<lparr>summary = s, key_clauses = cs, risk_assessment = Some t\<rparr>))
   \<and> ((\<exists>r \<in> set (requests (mount doc ar cr)). is_analyze r)
        \<longleftrightarrow> analysis_status doc = ''pending'')"
proof -
  have upd: "\<And>st. requests (loadChatHistory_finish cr st) = requests st"
    "\<And>st. analysis (loadChatHistory_finish cr st) = analysis st"
    "\<And>st. requests (analyzeDocument_finish ar st) = requests st"
    by (simp_all add: loadChatHistory_finish_def analyzeDocument_finish_def split: sum.splits)
  have oes: "\<And>t. or_empty_string (Some t) = t"
    by (simp add: or_empty_string_def truthy_def)
  show ?thesis
    by (auto simp: mount_def Let_def useEffect_def upd initial_state_def
        loadChatHistory_start_def analyzeDocument_start_def is_analyze_def truthy_def
        or_empty_list_def oes)
qed

theorem completed_document_served_from_store_witness:
  "analysis (mount lease (Inl RequestFailed) (Inr []))
     = Some \<lparr>summary = ''A lease.'',
             key_clauses = [\<lparr>clause = ''Rent'', explanation = ''Monthly.''\<rparr>],
             risk_assessment = Some ''Moderate risk.''\<rparr>
   \<and> requests (mount lease (Inl RequestFailed) (Inr [])) = [GetChat ''d1'']"
proof -
  have c: "analysis_status lease = ''completed''" by (simp add: lease_def)
  have f: "doc_summary lease = Some ''A lease.'' \<and> ''A lease.'' \<noteq> []
           \<and> doc_key_clauses lease = Some [\<lparr>clause = ''Rent'', explanation = ''Monthly.''\<rparr>]
           \<and> doc_risk_assessment lease = Some ''Moderate risk.''"
    by (simp add: lease_def)
  have p: "analysis_status lease \<noteq> ''pending''" by (simp add: lease_def)
  note t = completed_document_served_from_store [of lease "Inl RequestFailed" "Inr []"]
  from t c f have a: "analysis (mount lease (Inl RequestFailed) (Inr []))
     = Some \<lparr>summary = ''A lease.'',
             key_clauses = [\<lparr>clause = ''Rent'', explanation = ''Monthly.''\<rparr>],
             risk_assessment = Some ''Moderate risk.''\<rparr>"
    by blast
  have "requests (mount lease (Inl RequestFailed) (Inr [])) = [GetChat ''d1'']"
    by (simp add: mount_def Let_def useEffect_def initial_state_def truthy_def lease_def
        loadChatHistory_start_def loadChatHistory_finish_def)
  with a show ?thesis by simp
qed

text \<open>
  The claim as stated fails for a completed document whose stored summary is empty: the
  guard on \<^verbatim>\<open>document.summary\<close> leaves the analysis unset, although key clauses and a
  risk assessment are stored.
\<close>

theorem completed_without_summary_counterexample:
  "analysis_status bare = ''completed''
   \<and> analysis (mount bare (Inl RequestFailed) (Inr [])) = None
   \<and> analysis (mount bare (Inl RequestFailed) (Inr []))
       \<noteq> Some \<lparr>summary = [], key_clauses = [\<lparr>clause = ''Term'', explanation = ''Two years.''\<rparr>],
                 risk_assessment = Some ''Low risk.''\<rparr>"
  by (simp add: mount_def Let_def useEffect_def initial_state_def truthy_def bare_def
        loadChatHistory_start_def loadChatHistory_finish_def)

section \<open>Clause numbers\<close>

lemma enumerate_snd_map: "map (\<lambda>x. g (snd x)) (enumerate k xs) = map g xs"
proof -
  have "map (\<lambda>x. g (snd x)) (enumerate k xs) = map g (map snd (enumerate k xs))"
    by (simp only: map_map comp_def)
  then show ?thesis by (simp only: map_snd_enumerate)
qed

text \<open>
  C3. For an analysis with \<open>n > 0\<close> key clauses, the clauses tab lists \<open>n\<close> items whose
  numbers are 1, 2, ..., \<open>n\<close> in order, one per clause and in the order of the clauses.
\<close>

theorem clause_numbers_contiguous:
  "length (key_clauses a) = n \<Longrightarrow> 0 < n \<Longrightarrow>
     \<exists>items. clauses_tab a = ClausesList items
       \<and> length items = n
       \<and> map clause_number items = [1..<Suc n]
       \<and> map clause_heading items = map clause (key_clauses a)
       \<and> map clause_text items = map explanation (key_clauses a)"
proof -
  assume n: "length (key_clauses a) = n" and pos: "0 < n"
  let ?items = "map (\<lambda>(index, c). \<lparr>clause_key = index, clause_number = index + 1,
                               clause_heading = clause c, clause_text = explanation c\<rparr>)
               (enumerate 0 (key_clauses a))"
  have tab: "clauses_tab a = ClausesList ?items"
    using n pos by (simp add: clauses_tab_def)
  have "map clause_number ?items = map (Suc \<circ> fst) (enumerate 0 (key_clauses a))"
    by (simp add: case_prod_unfold comp_def)
  also have "\<dots> = map Suc (map fst (enumerate 0 (key_clauses a)))"
    by (simp only: map_map)
  also have "\<dots> = map Suc [0..<n]"
    using n by (simp only: map_fst_enumerate) simp
  also have "\<dots> = [1..<Suc n]"
    by (simp add: map_Suc_upt)
  finally have "map clause_number ?items = [1..<Suc n]" .
  moreover have "map clause_heading ?items = map clause (key_clauses a)"
    using enumerate_snd_map [of clause 0 "key_clauses a"] by (simp add: case_prod_unfold comp_def)
  moreover have "map clause_text ?items = map explanation (key_clauses a)"
    using enumerate_snd_map [of explanation 0 "key_clauses a"] by (simp add: case_prod_unfold comp_def)
  moreover have "length ?items = n" using n by simp
  ultimately show ?thesis
    using tab by blast
qed

theorem clause_numbers_contiguous_witness:
  "\<exists>items. clauses_tab \<lparr>summary = ''S'',
        key_clauses = [\<lparr>clause = ''Rent'', explanation = ''Monthly.''\<rparr>,
                       \<lparr>clause = ''Term'', explanation = ''Two years.''\<rparr>,
                       \<lparr>clause = ''Rent'', explanation = ''Monthly.''\<rparr>],
        risk_assessment = None\<rparr> = ClausesList items
     \<and> map clause_number items = [1, 2, 3]"
proof -
  let ?a = "\<lparr>summary = ''S'',
        key_clauses = [\<lparr>clause = ''Rent'', explanation = ''Monthly.''\<rparr>,
                       \<lparr>clause = ''Term'', explanation = ''Two years.''\<rparr>,
                       \<lparr>clause = ''Rent'', explanation = ''Monthly.''\<rparr>],
        risk_assessment = None\<rparr>"
  have l: "length (key_clauses ?a) = 3" by simp
  have u: "[1..<Suc 3] = [1, 2, 3]" by (simp add: upt_rec)
  from clause_numbers_contiguous [OF l] show ?thesis unfolding u by auto
qed

section \<open>Overlapping analysis calls\<close>







section \<open>The analysis response parser: properties\<close>

text \<open>The model gives the record the specification expects on its end-to-end scenario.\<close>

lemma end_to_end_scenario:
  "parse scenario =
     Inr \<lparr>summary_blocks = [''This is a lease.'', ''Some preamble.''],
          keyClauses =
            [\<lparr>index = 1, title = ''Payment Terms'', explanation_text = ''Rent due monthly.''\<rparr>,
             \<lparr>index = 2, title = ''Termination'', explanation_text = ''30 day notice.''\<rparr>],
          riskAssessment = ''Moderate risk.''\<rparr>"
  by code_simp

lemma lines_go_nonempty: "lines_go acc s \<noteq> []"
  by (induction s arbitrary: acc) simp_all

lemma join_lines_Cons: "ys \<noteq> [] \<Longrightarrow> join_lines (x # ys) = x @ CHR 0x0A # join_lines ys"
  by (cases ys) simp_all

lemma join_lines_go: "join_lines (lines_go acc s) = rev acc @ s"
proof (induction s arbitrary: acc)
  case Nil
  show ?case by simp
next
  case (Cons c cs)
  show ?case
    by (simp add: Cons.IH join_lines_Cons lines_go_nonempty)
qed

lemma join_lines_of: "join_lines (lines_of s) = s"
  by (simp add: lines_of_def join_lines_go)

lemma join_lines_append:
  "xs \<noteq> [] \<Longrightarrow> ys \<noteq> [] \<Longrightarrow> join_lines (xs @ ys) = join_lines xs @ CHR 0x0A # join_lines ys"
proof (induction xs rule: join_lines.induct)
  case 1
  then show ?case by simp
next
  case (2 l)
  then show ?case by (simp add: join_lines_Cons)
next
  case (3 l l' ls)
  then show ?case by simp
qed

lemma prefix_join_lines: "prefix (join_lines xs) (join_lines (xs @ ys))"
proof (cases "xs = [] \<or> ys = []")
  case True
  then show ?thesis by auto
next
  case False
  then show ?thesis by (simp add: join_lines_append)
qed

lemma segment_leading:
  "concat (map snd (filter (\<lambda>seg. fst seg = None) (segment cur acc ls)))
     = (if cur = None then rev acc @ takeWhile (\<lambda>l. header_of_line l = None) ls else [])"
proof (induction ls arbitrary: cur acc)
  case Nil
  show ?case by simp
next
  case (Cons l ls)
  show ?case
  proof (cases "header_of_line l")
    case None
    then show ?thesis
      using Cons.IH [of cur "l # acc"] by simp
  next
    case (Some h)
    have "concat (map snd (filter (\<lambda>seg. fst seg = None) (segment (Some h) [] ls))) = []"
      using Cons.IH [of "Some h" "[]"] by simp
    with Some show ?thesis by simp
  qed
qed

lemma own_lines_leading:
  "map own_lines (filter (\<lambda>seg. fst seg = None) segs)
     = map snd (filter (\<lambda>seg. fst seg = None) segs)"
  by (induction segs) (simp_all add: own_lines_def)

lemma leading_lines:
  "section_lines None raw = takeWhile (\<lambda>l. header_of_line l = None) (lines_of raw)"
  by (simp add: section_lines_def sections_def own_lines_leading segment_leading)

lemma leading_content_prefix: "prefix (leading_content raw) raw"
proof -
  let ?ls = "lines_of raw"
  let ?P = "\<lambda>l. header_of_line l = None"
  have "prefix (join_lines (takeWhile ?P ?ls)) (join_lines (takeWhile ?P ?ls @ dropWhile ?P ?ls))"
    by (rule prefix_join_lines)
  then show ?thesis
    by (simp add: leading_content_def section_content_def leading_lines join_lines_of)
qed

lemma segment_no_headers:
  "list_all (\<lambda>l. header_of_line l = None) ls \<Longrightarrow> segment cur acc ls = [(cur, rev acc @ ls)]"
  by (induction ls arbitrary: acc) simp_all

lemma no_headers_section_lines:
  "list_all (\<lambda>l. header_of_line l = None) (lines_of raw) \<Longrightarrow> section_lines (Some h) raw = []"
  by (simp add: section_lines_def sections_def segment_no_headers)

lemma segment_lines_subset:
  "seg \<in> set (segment cur acc ls) \<Longrightarrow> set (snd seg) \<subseteq> set acc \<union> set ls"
proof (induction ls arbitrary: cur acc)
  case Nil
  then show ?case by auto
next
  case (Cons l ls)
  show ?case
  proof (cases "header_of_line l")
    case None
    with Cons.prems have "seg \<in> set (segment cur (l # acc) ls)" by simp
    from Cons.IH [OF this] show ?thesis by auto
  next
    case (Some h)
    with Cons.prems have "seg = (cur, rev acc) \<or> seg \<in> set (segment (Some h) [] ls)" by simp
    then show ?thesis
    proof
      assume "seg = (cur, rev acc)"
      then show ?thesis by auto
    next
      assume "seg \<in> set (segment (Some h) [] ls)"
      from Cons.IH [OF this] show ?thesis by auto
    qed
  qed
qed

lemma no_other_heading_content:
  assumes "list_all (\<lambda>l. \<not> is_other_heading l) (lines_of raw)"
  shows "unrecognized_content raw = []"
proof -
  have "stray_lines seg = []" if "seg \<in> set (sections raw)" for seg
  proof -
    from that have "set (snd seg) \<subseteq> set (lines_of raw)"
      using segment_lines_subset [of seg None "[]" "lines_of raw"] by (simp add: sections_def)
    with assms have "\<forall>l \<in> set (snd seg). \<not> is_other_heading l"
      by (auto simp: list_all_iff)
    then show ?thesis by (simp add: stray_lines_def)
  qed
  then have "concat (map stray_lines (sections raw)) = []" by simp
  then show ?thesis by (simp only: unrecognized_content_def join_lines.simps)
qed

lemma placeholder_not_blank: "\<not> is_blank no_summary_placeholder"
  by (simp add: is_blank_def no_summary_placeholder_def is_space_def)

text \<open>
  C2. The parser fails with \<open>EmptyInput\<close> exactly when the raw text is empty or
  whitespace-only. For every other text (a text that is not empty in that sense) that
  has no recognized header, parsing succeeds and gives exactly one clause entry, with
  index 1 and title \<open>General Clauses\<close>.
\<close>

theorem parse_empty_input:
  "(parse raw = Inl EmptyInput \<longleftrightarrow> is_blank raw)
   \<and> (\<not> is_blank raw \<and> list_all (\<lambda>l. header_of_line l = None) (lines_of raw) \<longrightarrow>
        (\<exists>r. parse raw = Inr r
           \<and> keyClauses r = [\<lparr>index = 1, title = ''General Clauses'', explanation_text = []\<rparr>]))"
  by (auto simp: parse_def extract_clauses_def no_headers_section_lines section_content_def)

theorem parse_empty_input_witness:
  "\<exists>r. parse ''hello world'' = Inr r
     \<and> keyClauses r = [\<lparr>index = 1, title = ''General Clauses'', explanation_text = []\<rparr>]"
proof -
  have b: "\<not> is_blank ''hello world''"
    by (simp add: is_blank_def is_space_def)
  have h: "list_all (\<lambda>l. header_of_line l = None) (lines_of ''hello world'')"
    by code_simp
  from parse_empty_input [of "''hello world''"] b h show ?thesis by blast
qed

text \<open>
  C4. Whenever parsing succeeds the summary has at least one block and no blank block.
  The content before the first recognized header is an initial part of the raw text, and
  when it is not blank it is one of the blocks of the summary, as it stands. The summary
  starts with the content of the executive summary section when there is one, and
  otherwise with the leading content when there is one. The content under headers that
  are not recognized is never dropped: when not blank it is a block of the summary too.
  When there is none of it (as in every text without such a header), the summary is the
  leading content alone if the executive summary is missing, and the fixed placeholder
  if both are missing.
\<close>

theorem summary_never_empty:
  "\<not> is_blank raw \<Longrightarrow>
     \<exists>r. parse raw = Inr r
       \<and> summary_blocks r \<noteq> []
       \<and> list_all (\<lambda>b. \<not> is_blank b) (summary_blocks r)
       \<and> prefix (leading_content raw) raw
       \<and> (\<not> is_blank (leading_content raw) \<longrightarrow> leading_content raw \<in> set (summary_blocks r))
       \<and> (\<not> is_blank (section_content (Some ExecutiveSummary) raw) \<longrightarrow>
            hd (summary_blocks r) = section_content (Some ExecutiveSummary) raw)
       \<and> (is_blank (section_content (Some ExecutiveSummary) raw)
            \<and> \<not> is_blank (leading_content raw) \<longrightarrow>
            hd (summary_blocks r) = leading_content raw)
       \<and> (\<not> is_blank (unrecognized_content raw) \<longrightarrow>
            unrecognized_content raw \<in> set (summary_blocks r))
       \<and> (list_all (\<lambda>l. \<not> is_other_heading l) (lines_of raw) \<longrightarrow>
            unrecognized_content raw = [])
       \<and> (is_blank (unrecognized_content raw)
            \<and> is_blank (section_content (Some ExecutiveSummary) raw)
            \<and> \<not> is_blank (leading_content raw) \<longrightarrow>
            summary_blocks r = [leading_content raw])
       \<and> (is_blank (unrecognized_content raw)
            \<and> is_blank (section_content (Some ExecutiveSummary) raw)
            \<and> is_blank (leading_content raw) \<longrightarrow>
            summary_blocks r = [no_summary_placeholder])"
  using leading_content_prefix [of raw] placeholder_not_blank no_other_heading_content [of raw]
  by (simp add: parse_def summary_of_def)

theorem summary_never_empty_witness:
  "\<exists>r. parse scenario = Inr r
     \<and> summary_blocks r = [''This is a lease.'', ''Some preamble.'']"
proof -
  have b: "\<not> is_blank scenario" by code_simp
  have l: "leading_content scenario = ''Some preamble.''" by code_simp
  have e: "section_content (Some ExecutiveSummary) scenario = ''This is a lease.''"
    by code_simp
  have nb: "\<not> is_blank ''Some preamble.''" "\<not> is_blank ''This is a lease.''"
    by (simp_all add: is_blank_def is_space_def)
  from summary_never_empty [OF b] obtain r where r: "parse scenario = Inr r"
    and hd: "hd (summary_blocks r) = ''This is a lease.''"
    and mem: "''Some preamble.'' \<in> set (summary_blocks r)"
    using nb unfolding l e by blast
  have "parse scenario = Inr \<lparr>summary_blocks = [''This is a lease.'', ''Some preamble.''],
          keyClauses =
            [\<lparr>index = 1, title = ''Payment Terms'', explanation_text = ''Rent due monthly.''\<rparr>,
             \<lparr>index = 2, title = ''Termination'', explanation_text = ''30 day notice.''\<rparr>],
          riskAssessment = ''Moderate risk.''\<rparr>"
    by (rule end_to_end_scenario)
  with r hd mem show ?thesis by auto
qed

text \<open>The indices the parser assigns are 1, 2, ... in extraction order.\<close>

lemma extract_clauses_indices:
  "map index (extract_clauses raw) = [1..<Suc (length (extract_clauses raw))]"
proof -
  let ?segs = "numbered_segments None (section_lines (Some KeyClausesAnalysis) raw)"
  show ?thesis
  proof (cases "?segs = []")
    case True
    then show ?thesis by (simp add: extract_clauses_def)
  next
    case False
    have "map index (map (\<lambda>(i, seg). clause_of (i + 1) seg) (enumerate 0 ?segs))
            = map (Suc \<circ> fst) (enumerate 0 ?segs)"
      by (simp add: case_prod_unfold comp_def clause_of_def Let_def)
    also have "\<dots> = map Suc (map fst (enumerate 0 ?segs))"
      by (simp only: map_map)
    also have "\<dots> = map Suc [0..<length ?segs]"
      by (simp only: map_fst_enumerate) simp
    also have "\<dots> = [1..<Suc (length ?segs)]"
      by (simp add: map_Suc_upt)
    finally show ?thesis
      using False by (simp add: extract_clauses_def Let_def)
  qed
qed

end
